theory Spec2Isabelle
  imports Complex_Main "HOL-Library.AList" "HOL-Library.Char_ord" "HOL-Library.List_Lexorder"
begin

section \<open>Data model of Bonferroni.py\<close>

text \<open>
  A float cell of a data frame. \<open>NaN\<close> is pandas' marker of a missing cell as well as the
  IEEE not-a-number; \<open>Fl r\<close> is any other float, read as the real number it denotes.
  Every ordering comparison with \<open>NaN\<close> is false, as in Python.
\<close>

datatype pyfloat = Fl real | NaN

fun float_lt :: "pyfloat \<Rightarrow> pyfloat \<Rightarrow> bool" where
  "float_lt (Fl a) (Fl b) = (a < b)"
| "float_lt _ _ = False"

fun isna :: "pyfloat \<Rightarrow> bool" where
  "isna NaN = True"
| "isna (Fl _) = False"

text \<open>
  A cell of a label column (object dtype): a string, or \<open>None\<close> for a missing cell.
\<close>

type_synonym label = "string option"

text \<open>
  One row of the data frame \<open>df\<close>: the columns \<open>'ID'\<close>, \<open>'Group'\<close>, \<open>'Condition'\<close>, and one
  float cell for each remaining column name (\<open>rm_columns = df.columns[3:]\<close>).
\<close>

record observation =
  ID :: "nat option"
  Group :: label
  Condition :: label
  DV :: "string \<Rightarrow> pyfloat"

text \<open>
  One row of the selection of the four columns \<open>id_column\<close>, \<open>group_col\<close>,
  \<open>condition_col\<close> and \<open>dv_col\<close> of \<open>data\<close>.
\<close>

record sel_row =
  s_id :: "nat option"
  s_group :: label
  s_condition :: label
  s_dv :: pyfloat

definition select_columns :: "string \<Rightarrow> observation list \<Rightarrow> sel_row list" where
  "select_columns dv_col data =
     map (\<lambda>r. \<lparr>s_id = ID r, s_group = Group r, s_condition = Condition r, s_dv = DV r dv_col\<rparr>) data"

text \<open>\<open>.dropna()\<close> drops every row with a missing cell in any column.\<close>

definition dropna :: "sel_row list \<Rightarrow> sel_row list" where
  "dropna rows =
     filter (\<lambda>r. s_id r \<noteq> None \<and> s_group r \<noteq> None \<and> s_condition r \<noteq> None \<and> \<not> isna (s_dv r)) rows"

text \<open>\<open>.dropna(subset=[dv_col])\<close> drops the rows whose dependent-variable cell is missing.\<close>

definition dropna_subset_dv :: "sel_row list \<Rightarrow> sel_row list" where
  "dropna_subset_dv rows = filter (\<lambda>r. \<not> isna (s_dv r)) rows"

text \<open>Rows of the tables that pingouin returns; only the columns the script reads.\<close>

record anova_row =
  Source :: string
  aov_p_unc :: pyfloat

record posthoc_row =
  Contrast :: string
  A :: string
  B :: string
  p_unc :: pyfloat
  p_corr :: pyfloat

record spher_result =
  spher :: bool
  W :: pyfloat
  pval :: pyfloat

datatype error = StatsError string

text \<open>
  The statistics routines of pingouin are not part of the repository: they are parameters
  of the model. Each takes the name of the dependent variable and the rows it is given,
  and returns its table or raises.
\<close>

record stats_lib =
  pg_mixed_anova :: "string \<Rightarrow> sel_row list \<Rightarrow> error + anova_row list"
  pg_sphericity :: "string \<Rightarrow> sel_row list \<Rightarrow> error + spher_result"
  pg_pairwise_tests :: "string \<Rightarrow> sel_row list \<Rightarrow> error + posthoc_row list"

section \<open>Mixed ANOVA\<close>

definition check_sphericity :: "stats_lib \<Rightarrow> sel_row list \<Rightarrow> string \<Rightarrow> error + spher_result" where
  "check_sphericity lib data dv = pg_sphericity lib dv data"

definition aov_data_of :: "observation list \<Rightarrow> string \<Rightarrow> sel_row list" where
  "aov_data_of data dv_col = dropna (select_columns dv_col data)"

definition run_mixed_anova ::
  "stats_lib \<Rightarrow> observation list \<Rightarrow> string \<Rightarrow> error + (anova_row list \<times> spher_result)" where
  "run_mixed_anova lib data dv_col =
     (let aov_data = aov_data_of data dv_col in
      case pg_mixed_anova lib dv_col aov_data of
        Inl e \<Rightarrow> Inl e
      | Inr aov \<Rightarrow>
          (case check_sphericity lib aov_data dv_col of
             Inl e \<Rightarrow> Inl e
           | Inr sphericity \<Rightarrow> Inr (aov, sphericity)))"

section \<open>Means\<close>

text \<open>
  \<open>groupby([group_col, condition_col])[dv_col].mean()\<close> has one entry for each pair of
  labels that occurs in a row with both labels present (rows with a missing key are left
  out of every group); its value is the mean of the non-missing values of the group, and
  \<open>NaN\<close> when there is none. The mean is taken over the reals. \<open>.unstack()\<close> makes the
  first key the row index and the second key the columns, both sorted, and fills the
  cells of the pairs that have no entry with \<open>NaN\<close>.
\<close>

record means_table =
  index :: "string list"
  columns :: "string list"
  cells :: "pyfloat list list"

definition group_values :: "sel_row list \<Rightarrow> string \<Rightarrow> string \<Rightarrow> pyfloat list" where
  "group_values data g c = map s_dv (filter (\<lambda>r. s_group r = Some g \<and> s_condition r = Some c) data)"

definition nanmean :: "pyfloat list \<Rightarrow> pyfloat" where
  "nanmean vs =
     (let xs = concat (map (\<lambda>v. case v of Fl x \<Rightarrow> [x] | NaN \<Rightarrow> []) vs)
      in if xs = [] then NaN else Fl (sum_list xs / real (length xs)))"

definition group_keys :: "sel_row list \<Rightarrow> (string \<times> string) list" where
  "group_keys data =
     concat (map (\<lambda>r. case (s_group r, s_condition r) of
                         (Some g, Some c) \<Rightarrow> [(g, c)]
                       | _ \<Rightarrow> []) data)"

definition calculate_means :: "sel_row list \<Rightarrow> means_table" where
  "calculate_means data =
     (let keys = group_keys data;
          idx = sort (remdups (map fst keys));
          cols = sort (remdups (map snd keys))
      in \<lparr>index = idx, columns = cols,
          cells = map (\<lambda>g. map (\<lambda>c. if (g, c) \<in> set keys
                                     then nanmean (group_values data g c) else NaN) cols) idx\<rparr>)"

text \<open>Reading a cell, \<open>means.loc[g, c]\<close>: \<open>None\<close> when the table has no such row or column.\<close>

definition means_at :: "means_table \<Rightarrow> string \<Rightarrow> string \<Rightarrow> pyfloat option" where
  "means_at t g c =
     (case map_of (zip (index t) (cells t)) g of
        None \<Rightarrow> None
      | Some row \<Rightarrow> map_of (zip (columns t) row) c)"

section \<open>Comparison matrices\<close>

text \<open>The value stored for a pair: \<open>comparison.values[0]\<close>, or the string \<open>'ns'\<close>.\<close>

datatype cell = P pyfloat | NS

text \<open>
  The levels come from \<open>.unique()\<close> and may hold a missing label. Python's \<open>!=\<close> is true
  whenever a side is \<open>nan\<close>; the column test \<open>posthoc_results['A'] == c\<close> is false for
  \<open>nan\<close>; an f-string prints \<open>nan\<close> as \<open>nan\<close>.
\<close>

fun py_ne :: "label \<Rightarrow> label \<Rightarrow> bool" where
  "py_ne (Some x) (Some y) = (x \<noteq> y)"
| "py_ne _ _ = True"

fun fmt :: "label \<Rightarrow> string" where
  "fmt (Some s) = s"
| "fmt None = ''nan''"

definition pair_key :: "label \<Rightarrow> label \<Rightarrow> string" where
  "pair_key c1 c2 = fmt c1 @ '' vs '' @ fmt c2"

definition row_matches :: "string \<Rightarrow> label \<Rightarrow> label \<Rightarrow> posthoc_row \<Rightarrow> bool" where
  "row_matches kind c1 c2 r =
     (Contrast r = kind \<and>
      ((Some (A r) = c1 \<and> Some (B r) = c2) \<or> (Some (A r) = c2 \<and> Some (B r) = c1)))"

definition lookup_p :: "string \<Rightarrow> posthoc_row list \<Rightarrow> label \<Rightarrow> label \<Rightarrow> cell" where
  "lookup_p kind posthoc_results c1 c2 =
     (case filter (row_matches kind c1 c2) posthoc_results of
        [] \<Rightarrow> NS
      | r # _ \<Rightarrow> P (p_unc r))"

definition add_comparison ::
  "string \<Rightarrow> posthoc_row list \<Rightarrow> label \<times> label \<Rightarrow> (string \<times> cell) list \<Rightarrow> (string \<times> cell) list" where
  "add_comparison kind posthoc_results pr comparisons =
     (if py_ne (fst pr) (snd pr)
      then AList.update (pair_key (fst pr) (snd pr))
             (lookup_p kind posthoc_results (fst pr) (snd pr)) comparisons
      else comparisons)"

definition compare_conditions_within_groups ::
  "posthoc_row list \<Rightarrow> label \<Rightarrow> label list \<Rightarrow> (string \<times> cell) list" where
  "compare_conditions_within_groups posthoc_results grp conditions =
     fold (add_comparison ''Condition'' posthoc_results) (List.product conditions conditions) []"

definition compare_groups_within_conditions ::
  "posthoc_row list \<Rightarrow> label \<Rightarrow> label list \<Rightarrow> (string \<times> cell) list" where
  "compare_groups_within_conditions posthoc_results cnd groups =
     fold (add_comparison ''Group'' posthoc_results) (List.product groups groups) []"

definition compare_interaction ::
  "posthoc_row list \<Rightarrow> means_table \<Rightarrow> (string \<times> string \<times> pyfloat \<times> pyfloat) list \<times> means_table" where
  "compare_interaction posthoc_results means =
     (map (\<lambda>r. (A r, B r, p_unc r, p_corr r))
        (filter (\<lambda>r. Contrast r = ''Condition * Group'') posthoc_results), means)"

section \<open>Post-hoc tests behind the interaction gate\<close>

text \<open>
  \<open>.str.strip().str.lower()\<close> on labels of ASCII characters: \<open>strip\<close> removes the leading
  and trailing characters for which \<open>str.isspace\<close> holds (codes 9 to 13 and 28 to 32),
  \<open>lower\<close> maps \<open>A\<close> to \<open>Z\<close> to \<open>a\<close> to \<open>z\<close>. A missing label stays missing.
\<close>

definition isspace :: "char \<Rightarrow> bool" where
  "isspace c = (let n = (of_char c :: nat) in (9 \<le> n \<and> n \<le> 13) \<or> (28 \<le> n \<and> n \<le> 32))"

definition strip :: "string \<Rightarrow> string" where
  "strip s = rev (dropWhile isspace (rev (dropWhile isspace s)))"

definition lower_char :: "char \<Rightarrow> char" where
  "lower_char c = (let n = (of_char c :: nat) in if 65 \<le> n \<and> n \<le> 90 then char_of (n + 32) else c)"

definition lower :: "string \<Rightarrow> string" where
  "lower s = map lower_char s"

definition str_strip_lower :: "label \<Rightarrow> label" where
  "str_strip_lower l = map_option (\<lambda>s. lower (strip s)) l"

text \<open>
  The two column assignments \<open>data[group_col] = ...\<close> and \<open>data[condition_col] = ...\<close>.
  \<open>data\<close> is the caller's data frame itself, so the model returns the frame it leaves.
\<close>

definition normalize_labels :: "observation list \<Rightarrow> observation list" where
  "normalize_labels data =
     (let data1 = map (\<lambda>r. r\<lparr>Group := str_strip_lower (Group r)\<rparr>) data
      in map (\<lambda>r. r\<lparr>Condition := str_strip_lower (Condition r)\<rparr>) data1)"

text \<open>\<open>.unique()\<close>: the distinct values in order of first appearance.\<close>

definition unique :: "'a list \<Rightarrow> 'a list" where
  "unique xs = rev (remdups (rev xs))"

type_synonym comparison_dict = "(label \<times> (string \<times> cell) list) list"

record posthoc_bundle =
  posthoc_results :: "posthoc_row list"
  condition_comparisons :: comparison_dict
  group_comparisons :: comparison_dict
  interaction_comparisons :: "(string \<times> string \<times> pyfloat \<times> pyfloat) list"
  means :: means_table

datatype message =
    RunningAnova string
  | RunningPosthoc string pyfloat
  | SkippingPosthoc string pyfloat
  | InteractionNotFound string
  | Complete

definition posthoc_data_of :: "observation list \<Rightarrow> string \<Rightarrow> sel_row list" where
  "posthoc_data_of data dv_col = dropna_subset_dv (select_columns dv_col data)"

text \<open>
  Lines 93 to 110: the means, the levels, one matrix for each group and for each
  condition, and the interaction rows, from the rows kept and the pairwise table.
\<close>

definition build_bundle :: "sel_row list \<Rightarrow> posthoc_row list \<Rightarrow> posthoc_bundle" where
  "build_bundle posthoc_data results =
     (let means0 = calculate_means posthoc_data;
          groups = unique (map s_group posthoc_data);
          conditions = unique (map s_condition posthoc_data);
          condition_comps =
            fold (\<lambda>g d. AList.update g (compare_conditions_within_groups results g conditions) d)
              groups [];
          group_comps =
            fold (\<lambda>c d. AList.update c (compare_groups_within_conditions results c groups) d)
              conditions [];
          (interaction_comps, means1) = compare_interaction results means0
      in \<lparr>posthoc_results = results, condition_comparisons = condition_comps,
          group_comparisons = group_comps, interaction_comparisons = interaction_comps,
          means = means1\<rparr>)"

text \<open>
  The result is the data frame as the call leaves it, the line printed, and either the
  exception of the pairwise tests, or \<open>None\<close> for the five \<open>None\<close>s, or the five tables.
\<close>

definition run_posthoc_tests_if_interaction_significant ::
  "stats_lib \<Rightarrow> observation list \<Rightarrow> string \<Rightarrow> pyfloat
     \<Rightarrow> observation list \<times> message \<times> (error + posthoc_bundle option)" where
  "run_posthoc_tests_if_interaction_significant lib data dv_col interaction_p_value =
     (if float_lt interaction_p_value (Fl (1 / 1000)) then
        (let data' = normalize_labels data;
             posthoc_data = posthoc_data_of data' dv_col
         in (data', RunningPosthoc dv_col interaction_p_value,
             case pg_pairwise_tests lib dv_col posthoc_data of
               Inl e \<Rightarrow> Inl e
             | Inr results \<Rightarrow> Inr (Some (build_bundle posthoc_data results))))
      else (data, SkippingPosthoc dv_col interaction_p_value, Inr None))"

section \<open>The main loop\<close>

datatype sheet =
    AnovaSheet "anova_row list"
  | PosthocSheet "posthoc_row list"
  | ComparisonSheet comparison_dict
  | InteractionSheet "(string \<times> string \<times> pyfloat \<times> pyfloat) list"
  | MeansSheet means_table

text \<open>
  The state of the script: the data frame \<open>df\<close>, the sheets handed to the Excel writer in
  the order written, and the lines printed. The writer accepts every sheet.
\<close>

record state =
  df :: "observation list"
  sheets :: "(string \<times> sheet) list"
  out :: "message list"

definition interaction_p :: "anova_row list \<Rightarrow> pyfloat option" where
  "interaction_p aov =
     (case filter (\<lambda>r. Source r = ''Interaction'') aov of
        [] \<Rightarrow> None
      | r # _ \<Rightarrow> Some (aov_p_unc r))"

definition posthoc_sheets :: "string \<Rightarrow> posthoc_bundle \<Rightarrow> (string \<times> sheet) list" where
  "posthoc_sheets dv_col b =
     [(dv_col @ ''_Posthoc_Comparisons'', PosthocSheet (posthoc_results b)),
      (dv_col @ ''_Condition_Comparisons'', ComparisonSheet (condition_comparisons b)),
      (dv_col @ ''_Group_Comparisons'', ComparisonSheet (group_comparisons b)),
      (dv_col @ ''_Interaction_Comparisons'', InteractionSheet (interaction_comparisons b)),
      (dv_col @ ''_Means'', MeansSheet (means b))]"

text \<open>
  One iteration of the loop body. The second component is the exception that left the
  loop body uncaught, if any.
\<close>

definition process_dv :: "stats_lib \<Rightarrow> string \<Rightarrow> state \<Rightarrow> state \<times> error option" where
  "process_dv lib dv_col s =
     (let s1 = s\<lparr>out := out s @ [RunningAnova dv_col]\<rparr> in
      case run_mixed_anova lib (df s1) dv_col of
        Inl e \<Rightarrow> (s1, Some e)
      | Inr (mixed_anova, sphericity) \<Rightarrow>
          (let s2 = s1\<lparr>sheets := sheets s1 @ [(dv_col @ ''_Mixed_ANOVA'', AnovaSheet mixed_anova)]\<rparr> in
           case interaction_p mixed_anova of
             None \<Rightarrow> (s2\<lparr>out := out s2 @ [InteractionNotFound dv_col]\<rparr>, None)
           | Some interaction_p_value \<Rightarrow>
               (case run_posthoc_tests_if_interaction_significant lib (df s2) dv_col interaction_p_value of
                  (data', msg, res) \<Rightarrow>
                    (let s3 = s2\<lparr>df := data', out := out s2 @ [msg]\<rparr> in
                     case res of
                       Inl e \<Rightarrow> (s3, Some e)
                     | Inr None \<Rightarrow> (s3, None)
                     | Inr (Some b) \<Rightarrow>
                         (s3\<lparr>sheets := sheets s3 @ posthoc_sheets dv_col b\<rparr>, None)))))"

fun main_loop :: "stats_lib \<Rightarrow> string list \<Rightarrow> state \<Rightarrow> state \<times> error option" where
  "main_loop lib [] s = (s, None)"
| "main_loop lib (dv_col # rm_columns) s =
     (case process_dv lib dv_col s of
        (s', Some e) \<Rightarrow> (s', Some e)
      | (s', None) \<Rightarrow> main_loop lib rm_columns s')"

definition main :: "stats_lib \<Rightarrow> string list \<Rightarrow> observation list \<Rightarrow> state \<times> error option" where
  "main lib rm_columns data =
     (case main_loop lib rm_columns \<lparr>df = data, sheets = [], out = []\<rparr> of
        (s, Some e) \<Rightarrow> (s, Some e)
      | (s, None) \<Rightarrow> (s\<lparr>out := out s @ [Complete]\<rparr>, None))"

section \<open>Example inputs\<close>

text \<open>
  A small data frame with untidy labels and one missing value, and a stand-in for the
  statistics library: it raises when it is given fewer than two rows, reports no
  interaction row for \<open>fc3\<close>, an interaction p-value of 0.0005 for \<open>fc1\<close> and of 0.02 for
  every other column.
\<close>

definition dv_cells :: "(string \<times> pyfloat) list \<Rightarrow> string \<Rightarrow> pyfloat" where
  "dv_cells al name = (case map_of al name of Some v \<Rightarrow> v | None \<Rightarrow> NaN)"

definition example_df :: "observation list" where
  "example_df =
     [\<lparr>ID = Some 1, Group = Some '' A'', Condition = Some ''Pre '',
       DV = dv_cells [(''fc1'', Fl 1), (''fc2'', Fl 2), (''fc3'', Fl 1)]\<rparr>,
      \<lparr>ID = Some 1, Group = Some '' A'', Condition = Some ''post'',
       DV = dv_cells [(''fc1'', Fl 3), (''fc2'', Fl 2), (''fc3'', Fl 1)]\<rparr>,
      \<lparr>ID = Some 2, Group = Some ''b'', Condition = Some ''Pre '',
       DV = dv_cells [(''fc1'', Fl 5), (''fc2'', Fl 4), (''fc3'', Fl 1)]\<rparr>,
      \<lparr>ID = Some 2, Group = Some ''b'', Condition = Some ''post'',
       DV = dv_cells [(''fc1'', NaN), (''fc2'', Fl 6), (''fc3'', Fl 1)]\<rparr>]"

definition example_anova :: "string \<Rightarrow> sel_row list \<Rightarrow> error + anova_row list" where
  "example_anova dv rows =
     (if length rows < 2 then Inl (StatsError ''insufficient data'')
      else if dv = ''fc3'' then
        Inr [\<lparr>Source = ''Group'', aov_p_unc = Fl (1 / 2)\<rparr>,
             \<lparr>Source = ''Condition'', aov_p_unc = Fl (1 / 4)\<rparr>]
      else
        Inr [\<lparr>Source = ''Group'', aov_p_unc = Fl (1 / 2)\<rparr>,
             \<lparr>Source = ''Condition'', aov_p_unc = Fl (1 / 4)\<rparr>,
             \<lparr>Source = ''Interaction'',
              aov_p_unc = (if dv = ''fc1'' then Fl (5 / 10000) else Fl (2 / 100))\<rparr>])"

definition example_sphericity :: "string \<Rightarrow> sel_row list \<Rightarrow> error + spher_result" where
  "example_sphericity dv rows = Inr \<lparr>spher = True, W = NaN, pval = Fl 1\<rparr>"

definition example_rows :: "posthoc_row list" where
  "example_rows =
     [\<lparr>Contrast = ''Condition'', A = ''post'', B = ''pre'', p_unc = Fl (2 / 100), p_corr = Fl (2 / 100)\<rparr>,
      \<lparr>Contrast = ''Group'', A = ''a'', B = ''b'', p_unc = Fl (3 / 10), p_corr = Fl (3 / 10)\<rparr>,
      \<lparr>Contrast = ''Condition * Group'', A = ''a'', B = ''b'', p_unc = Fl (1 / 100), p_corr = Fl (2 / 100)\<rparr>]"

definition example_pairwise :: "string \<Rightarrow> sel_row list \<Rightarrow> error + posthoc_row list" where
  "example_pairwise dv rows =
     (if length rows < 2 then Inl (StatsError ''insufficient data'') else Inr example_rows)"

definition example_lib :: stats_lib where
  "example_lib = \<lparr>pg_mixed_anova = example_anova, pg_sphericity = example_sphericity,
                   pg_pairwise_tests = example_pairwise\<rparr>"

definition failing_pairwise :: "string \<Rightarrow> sel_row list \<Rightarrow> error + posthoc_row list" where
  "failing_pairwise dv rows = Inl (StatsError ''too few subjects'')"

definition example_lib_failing_posthoc :: stats_lib where
  "example_lib_failing_posthoc = example_lib\<lparr>pg_pairwise_tests := failing_pairwise\<rparr>"

definition example_state :: state where
  "example_state = \<lparr>df = example_df, sheets = [], out = []\<rparr>"

definition example_sel :: "sel_row list" where
  "example_sel =
     [\<lparr>s_id = Some 1, s_group = Some ''a'', s_condition = Some ''pre'', s_dv = Fl 1\<rparr>,
      \<lparr>s_id = Some 1, s_group = Some ''a'', s_condition = Some ''post'', s_dv = Fl 3\<rparr>,
      \<lparr>s_id = Some 2, s_group = Some ''b'', s_condition = Some ''pre'', s_dv = Fl 5\<rparr>]"

text \<open>
  A pairwise table with two rows for the same pair, and a list of levels in which two
  different pairs print as the same key.
\<close>

definition duplicate_rows :: "posthoc_row list" where
  "duplicate_rows =
     [\<lparr>Contrast = ''Condition'', A = ''x'', B = ''y'', p_unc = Fl (1 / 2), p_corr = Fl 1\<rparr>,
      \<lparr>Contrast = ''Condition'', A = ''x'', B = ''y'', p_unc = Fl (2 / 100), p_corr = Fl (4 / 100)\<rparr>]"

definition colliding_levels :: "label list" where
  "colliding_levels = [Some ''a'', Some ''vs y'', Some ''a vs'', Some ''y'']"

definition colliding_rows :: "posthoc_row list" where
  "colliding_rows =
     [\<lparr>Contrast = ''Condition'', A = ''a vs'', B = ''y'', p_unc = Fl (2 / 100), p_corr = Fl (2 / 100)\<rparr>]"

section \<open>Helper lemmas\<close>

lemma map_of_add_comparison:
  "map_of (add_comparison kind rows pr al) k
     = (if py_ne (fst pr) (snd pr) \<and> pair_key (fst pr) (snd pr) = k
        then Some (lookup_p kind rows (fst pr) (snd pr)) else map_of al k)"
  by (simp add: add_comparison_def update_conv')

lemma map_of_fold_add_comparison:
  assumes "(x, y) \<in> set ps" and "py_ne x y"
  shows "\<exists>c1 c2. (c1, c2) \<in> set ps \<and> py_ne c1 c2 \<and> pair_key c1 c2 = pair_key x y
           \<and> map_of (fold (add_comparison kind rows) ps []) (pair_key x y)
               = Some (lookup_p kind rows c1 c2)"
  using assms
proof (induction ps rule: rev_induct)
  case Nil
  then show ?case by simp
next
  case (snoc pr ps)
  show ?case
  proof (cases "py_ne (fst pr) (snd pr) \<and> pair_key (fst pr) (snd pr) = pair_key x y")
    case True
    then have "map_of (fold (add_comparison kind rows) (ps @ [pr]) []) (pair_key x y)
                 = Some (lookup_p kind rows (fst pr) (snd pr))"
      by (simp add: map_of_add_comparison)
    moreover have "(fst pr, snd pr) \<in> set (ps @ [pr])" by simp
    ultimately show ?thesis using True by blast
  next
    case False
    then have "(x, y) \<noteq> pr" using snoc.prems(2) by auto
    then have "(x, y) \<in> set ps" using snoc.prems(1) by auto
    then obtain c1 c2 where c: "(c1, c2) \<in> set ps" "py_ne c1 c2" "pair_key c1 c2 = pair_key x y"
      "map_of (fold (add_comparison kind rows) ps []) (pair_key x y) = Some (lookup_p kind rows c1 c2)"
      using snoc.IH snoc.prems(2) by blast
    have "map_of (fold (add_comparison kind rows) (ps @ [pr]) []) (pair_key x y)
            = map_of (fold (add_comparison kind rows) ps []) (pair_key x y)"
      using False by (auto simp: map_of_add_comparison)
    then show ?thesis using c by auto
  qed
qed

lemma row_matches_sym: "row_matches kind c1 c2 r = row_matches kind c2 c1 r"
  by (auto simp: row_matches_def)

lemma lookup_p_sym: "lookup_p kind rows c1 c2 = lookup_p kind rows c2 c1"
proof -
  have "row_matches kind c1 c2 = row_matches kind c2 c1"
    using row_matches_sym by blast
  then show ?thesis by (simp add: lookup_p_def)
qed

lemma lookup_p_first:
  assumes "rows = pre @ r # post" and "\<forall>q\<in>set pre. \<not> row_matches kind c1 c2 q"
    and "row_matches kind c1 c2 r"
  shows "lookup_p kind rows c1 c2 = P (p_unc r)"
proof -
  have "filter (row_matches kind c1 c2) pre = []"
    using assms(2) by (simp add: filter_empty_conv)
  then show ?thesis using assms(1,3) by (simp add: lookup_p_def)
qed

lemma lookup_p_none:
  "\<forall>q\<in>set rows. \<not> row_matches kind c1 c2 q \<Longrightarrow> lookup_p kind rows c1 c2 = NS"
  by (simp add: lookup_p_def filter_empty_conv)

lemma matrix_entry:
  assumes "x \<in> set levels" and "y \<in> set levels" and "py_ne x y"
  shows "\<exists>c1 c2. c1 \<in> set levels \<and> c2 \<in> set levels \<and> py_ne c1 c2 \<and> pair_key c1 c2 = pair_key x y
           \<and> map_of (fold (add_comparison kind rows) (List.product levels levels) []) (pair_key x y)
               = Some (lookup_p kind rows c1 c2)"
proof -
  have "(x, y) \<in> set (List.product levels levels)" using assms(1,2) by simp
  from map_of_fold_add_comparison[OF this assms(3), of kind rows]
  show ?thesis by auto
qed

text \<open>
  Two pairs of levels print as the same key only if a level is missing or holds a space.
\<close>

lemma pair_key_inject:
  assumes "CHR '' '' \<notin> set a" and "CHR '' '' \<notin> set c"
    and "pair_key (Some a) (Some b) = pair_key (Some c) (Some d)"
  shows "a = c \<and> b = d"
proof -
  have t: "takeWhile (\<lambda>x. x \<noteq> CHR '' '') (s @ '' vs '' @ u) = s" if "CHR '' '' \<notin> set s" for s u
  proof -
    have "\<forall>x\<in>set s. x \<noteq> CHR '' ''" using that by blast
    then show ?thesis by (simp add: takeWhile_tail)
  qed
  have "a @ '' vs '' @ b = c @ '' vs '' @ d"
    using assms(3) by (simp add: pair_key_def)
  then have "takeWhile (\<lambda>x. x \<noteq> CHR '' '') (a @ '' vs '' @ b)
      = takeWhile (\<lambda>x. x \<noteq> CHR '' '') (c @ '' vs '' @ d)" by simp
  then have "a = c" using t[OF assms(1)] t[OF assms(2)] by simp
  then show ?thesis using \<open>a @ '' vs '' @ b = c @ '' vs '' @ d\<close> by simp
qed

lemma keys_unique_without_spaces:
  assumes "\<forall>l\<in>set levels. \<exists>s. l = Some s \<and> CHR '' '' \<notin> set s"
    and "Some x \<in> set levels"
  shows "\<forall>c1\<in>set levels. \<forall>c2\<in>set levels.
           py_ne c1 c2 \<and> pair_key c1 c2 = pair_key (Some x) (Some y) \<longrightarrow> c1 = Some x \<and> c2 = Some y"
proof (intro ballI impI)
  fix c1 c2
  assume c: "c1 \<in> set levels" "c2 \<in> set levels"
    and k: "py_ne c1 c2 \<and> pair_key c1 c2 = pair_key (Some x) (Some y)"
  obtain a b where ab: "c1 = Some a" "CHR '' '' \<notin> set a" "c2 = Some b"
    using assms(1) c by blast
  have "CHR '' '' \<notin> set x" using assms by blast
  then show "c1 = Some x \<and> c2 = Some y"
    using pair_key_inject[of a x b y] ab k by simp
qed

lemma set_update_subset: "set (AList.update k v al) \<subseteq> insert (k, v) (set al)"
  by (induction al) auto

lemma fold_update_const:
  "\<forall>kv\<in>set al. snd kv = m \<Longrightarrow> \<forall>kv\<in>set (fold (\<lambda>g d. AList.update g m d) gs al). snd kv = m"
proof (induction gs arbitrary: al)
  case Nil
  then show ?case by simp
next
  case (Cons g gs)
  have "\<forall>kv\<in>set (AList.update g m al). snd kv = m"
    using Cons.prems set_update_subset[of g m al] by auto
  then show ?case using Cons.IH by simp
qed

lemma select_dropna:
  "dropna (select_columns dv_col data)
     = select_columns dv_col
         (filter (\<lambda>r. ID r \<noteq> None \<and> Group r \<noteq> None \<and> Condition r \<noteq> None \<and> \<not> isna (DV r dv_col)) data)"
  by (simp add: dropna_def select_columns_def filter_map comp_def)

lemma nanmean_isna: "isna (nanmean vs) \<longleftrightarrow> (\<forall>v\<in>set vs. isna v)"
proof -
  have "concat (map (\<lambda>v. case v of Fl x \<Rightarrow> [x] | NaN \<Rightarrow> []) vs) = [] \<longleftrightarrow> (\<forall>v\<in>set vs. isna v)"
    by (induction vs) (auto split: pyfloat.splits)
  then show ?thesis by (simp add: nanmean_def Let_def)
qed

lemma set_group_keys:
  "set (group_keys data) = {(g, c). \<exists>r\<in>set data. s_group r = Some g \<and> s_condition r = Some c}"
  by (auto simp: group_keys_def split: option.splits)

lemma group_values_no_key:
  "(g, c) \<notin> set (group_keys data) \<Longrightarrow> group_values data g c = []"
  by (auto simp: set_group_keys group_values_def filter_empty_conv)

lemma isspace_lower_char: "isspace (lower_char c) = isspace c"
  by (simp add: isspace_def lower_char_def Let_def)

lemma lower_char_idem: "lower_char (lower_char c) = lower_char c"
  by (simp add: lower_char_def Let_def)

lemma strip_lower: "strip (lower s) = lower (strip s)"
  by (simp add: strip_def lower_def dropWhile_map rev_map comp_def isspace_lower_char)

lemma lower_idem: "lower (lower s) = lower s"
  by (simp add: lower_def lower_char_idem)

lemma strip_idem: "strip (strip s) = strip s"
proof -
  let ?u = "dropWhile isspace s"
  let ?t = "rev (dropWhile isspace (rev ?u))"
  have split: "?u = ?t @ rev (takeWhile isspace (rev ?u))"
    by (metis rev_append rev_rev_ident takeWhile_dropWhile_id)
  have "dropWhile isspace ?t = ?t"
  proof (cases "?t = []")
    case True
    then show ?thesis by (simp only: dropWhile.simps)
  next
    case False
    then have "hd ?t = hd ?u" using split by (metis hd_append2)
    moreover have "?u \<noteq> []" using False by (metis dropWhile.simps(1) rev.simps(1))
    ultimately have "\<not> isspace (hd ?t)" using hd_dropWhile[of isspace s] by simp
    then show ?thesis by (simp add: dropWhile_eq_self_iff)
  qed
  then show ?thesis by (simp add: strip_def)
qed

lemma str_strip_lower_idem: "str_strip_lower (str_strip_lower l) = str_strip_lower l"
  by (cases l) (simp_all add: str_strip_lower_def strip_lower lower_idem strip_idem)

lemma normalize_labels_idem: "normalize_labels (normalize_labels data) = normalize_labels data"
  by (simp add: normalize_labels_def Let_def comp_def str_strip_lower_idem)

text \<open>
  The two dictionaries of a bundle hold one entry for each level, in the order of the
  levels, so the five tables of a bundle can be written out.
\<close>

lemma update_fresh: "k \<notin> fst ` set al \<Longrightarrow> AList.update k v al = al @ [(k, v)]"
  by (induction al) auto

lemma fold_update_distinct:
  "distinct gs \<Longrightarrow> set gs \<inter> fst ` set al = {} \<Longrightarrow>
     fold (\<lambda>g d. AList.update g (f g) d) gs al = al @ map (\<lambda>g. (g, f g)) gs"
proof (induction gs arbitrary: al)
  case Nil
  then show ?case by simp
next
  case (Cons g gs)
  have fresh: "g \<notin> fst ` set al" using Cons.prems(2) by auto
  have "set gs \<inter> fst ` set (al @ [(g, f g)]) = {}"
    using Cons.prems by auto
  then have "fold (\<lambda>g d. AList.update g (f g) d) gs (al @ [(g, f g)])
      = (al @ [(g, f g)]) @ map (\<lambda>g. (g, f g)) gs"
    using Cons.IH Cons.prems(1) by simp
  then show ?case using fresh by (simp add: update_fresh)
qed

lemma distinct_unique: "distinct (unique xs)"
  by (simp add: unique_def)

lemma build_bundle_tables:
  "build_bundle posthoc_data results
     = \<lparr>posthoc_results = results,
        condition_comparisons =
          map (\<lambda>g. (g, compare_conditions_within_groups results g (unique (map s_condition posthoc_data))))
            (unique (map s_group posthoc_data)),
        group_comparisons =
          map (\<lambda>c. (c, compare_groups_within_conditions results c (unique (map s_group posthoc_data))))
            (unique (map s_condition posthoc_data)),
        interaction_comparisons =
          map (\<lambda>r. (A r, B r, p_unc r, p_corr r))
            (filter (\<lambda>r. Contrast r = ''Condition * Group'') results),
        means = calculate_means posthoc_data\<rparr>"
proof -
  have a: "fold (\<lambda>g d. AList.update g (f g) d) (unique xs) [] = map (\<lambda>g. (g, f g)) (unique xs)"
    for f :: "label \<Rightarrow> (string \<times> cell) list" and xs
    using fold_update_distinct[OF distinct_unique, of xs "[]" f] by simp
  show ?thesis
    by (simp add: build_bundle_def Let_def a compare_interaction_def)
qed

text \<open>Unfolding the example inputs.\<close>

lemmas example_defs = example_lib_def example_anova_def example_sphericity_def example_pairwise_def
  example_state_def example_df_def dv_cells_def

lemmas anova_defs = run_mixed_anova_def aov_data_of_def select_columns_def dropna_def check_sphericity_def
  interaction_p_def

lemma char_of_eq_conv: "n < 256 \<Longrightarrow> (char_of (n::nat) = c) = (n = of_char c)"
  by (metis char_of_char mod_less of_char_of)

section \<open>The interaction gate\<close>

text \<open>
  C1: the post-hoc computation runs exactly when the interaction p-value is strictly
  below 0.001. For a float \<open>p < 0.001\<close> the call normalizes the labels, drops the rows
  without a value, runs the pairwise tests on the rows kept and, unless they raise,
  returns the pairwise table, one condition-pair matrix for each group, one group-pair
  matrix for each condition, the interaction rows and the means; for every other \<open>p\<close>
  it leaves the data frame as it is and returns the five \<open>None\<close>s. So the result is
  something other than the five \<open>None\<close>s if and only if \<open>p < 0.001\<close>; at \<open>p = 0.001\<close>
  exactly, and for a \<open>nan\<close> p-value, post-hoc is skipped. The literal \<open>0.001\<close> is read as
  1/1000: the double nearest to 1/1000 is the least double above it, so a double is
  below the literal exactly when its value is below 1/1000.
\<close>

theorem posthoc_runs_iff_below_threshold:
  "run_posthoc_tests_if_interaction_significant lib data dv_col (Fl p)
     = (if p < 1 / 1000
        then (normalize_labels data, RunningPosthoc dv_col (Fl p),
              case pg_pairwise_tests lib dv_col (posthoc_data_of (normalize_labels data) dv_col) of
                Inl e \<Rightarrow> Inl e
              | Inr results \<Rightarrow>
                  Inr (Some
                    \<lparr>posthoc_results = results,
                     condition_comparisons =
                       map (\<lambda>g. (g, compare_conditions_within_groups results g
                                      (unique (map s_condition (posthoc_data_of (normalize_labels data) dv_col)))))
                         (unique (map s_group (posthoc_data_of (normalize_labels data) dv_col))),
                     group_comparisons =
                       map (\<lambda>c. (c, compare_groups_within_conditions results c
                                      (unique (map s_group (posthoc_data_of (normalize_labels data) dv_col)))))
                         (unique (map s_condition (posthoc_data_of (normalize_labels data) dv_col))),
                     interaction_comparisons =
                       map (\<lambda>r. (A r, B r, p_unc r, p_corr r))
                         (filter (\<lambda>r. Contrast r = ''Condition * Group'') results),
                     means = calculate_means (posthoc_data_of (normalize_labels data) dv_col)\<rparr>))
        else (data, SkippingPosthoc dv_col (Fl p), Inr None))
   \<and> ((snd (snd (run_posthoc_tests_if_interaction_significant lib data dv_col (Fl p))) \<noteq> Inr None)
        = (p < 1 / 1000))
   \<and> snd (snd (run_posthoc_tests_if_interaction_significant lib data dv_col (Fl (1 / 1000)))) = Inr None
   \<and> snd (snd (run_posthoc_tests_if_interaction_significant lib data dv_col NaN)) = Inr None"
proof -
  have a: "run_posthoc_tests_if_interaction_significant lib data dv_col (Fl p)
     = (if p < 1 / 1000
        then (normalize_labels data, RunningPosthoc dv_col (Fl p),
              case pg_pairwise_tests lib dv_col (posthoc_data_of (normalize_labels data) dv_col) of
                Inl e \<Rightarrow> Inl e
              | Inr results \<Rightarrow>
                  Inr (Some (build_bundle (posthoc_data_of (normalize_labels data) dv_col) results)))
        else (data, SkippingPosthoc dv_col (Fl p), Inr None))"
    by (simp add: run_posthoc_tests_if_interaction_significant_def Let_def)
  have b: "(snd (snd (run_posthoc_tests_if_interaction_significant lib data dv_col (Fl p))) \<noteq> Inr None)
        = (p < 1 / 1000)"
    by (simp add: run_posthoc_tests_if_interaction_significant_def Let_def split: sum.split)
  have c: "snd (snd (run_posthoc_tests_if_interaction_significant lib data dv_col (Fl (1 / 1000)))) = Inr None"
    "snd (snd (run_posthoc_tests_if_interaction_significant lib data dv_col NaN)) = Inr None"
    by (simp_all add: run_posthoc_tests_if_interaction_significant_def)
  show ?thesis
    unfolding build_bundle_tables[symmetric] using a b c by blast
qed

text \<open>
  The example at the p-values 0.0009, 0.0011 and 0.001: the five tables of the run, and
  the two skipped runs.
\<close>

theorem posthoc_runs_iff_below_threshold_witness:
  "run_posthoc_tests_if_interaction_significant example_lib example_df ''fc1'' (Fl (9 / 10000))
     = (normalize_labels example_df, RunningPosthoc ''fc1'' (Fl (9 / 10000)),
        Inr (Some
          \<lparr>posthoc_results = example_rows,
           condition_comparisons =
             [(Some ''a'', [(''pre vs post'', P (Fl (2 / 100))), (''post vs pre'', P (Fl (2 / 100)))]),
              (Some ''b'', [(''pre vs post'', P (Fl (2 / 100))), (''post vs pre'', P (Fl (2 / 100)))])],
           group_comparisons =
             [(Some ''pre'', [(''a vs b'', P (Fl (3 / 10))), (''b vs a'', P (Fl (3 / 10)))]),
              (Some ''post'', [(''a vs b'', P (Fl (3 / 10))), (''b vs a'', P (Fl (3 / 10)))])],
           interaction_comparisons = [(''a'', ''b'', Fl (1 / 100), Fl (2 / 100))],
           means = \<lparr>index = [''a'', ''b''], columns = [''post'', ''pre''],
                     cells = [[Fl 3, Fl 1], [NaN, Fl 5]]\<rparr>\<rparr>))
   \<and> run_posthoc_tests_if_interaction_significant example_lib example_df ''fc1'' (Fl (11 / 10000))
     = (example_df, SkippingPosthoc ''fc1'' (Fl (11 / 10000)), Inr None)
   \<and> snd (snd (run_posthoc_tests_if_interaction_significant example_lib example_df ''fc1'' (Fl (1 / 1000)))) = Inr None"
proof -
  have pd: "posthoc_data_of (normalize_labels example_df) ''fc1'' = example_sel"
    by (simp add: posthoc_data_of_def dropna_subset_dv_def select_columns_def normalize_labels_def
        example_df_def example_sel_def dv_cells_def str_strip_lower_def strip_def lower_def
        isspace_def lower_char_def char_of_eq_conv)
  have pw: "pg_pairwise_tests example_lib ''fc1'' example_sel = Inr example_rows"
    by (simp add: example_lib_def example_pairwise_def example_sel_def)
  have u: "unique (map s_condition example_sel) = [Some ''pre'', Some ''post'']"
    "unique (map s_group example_sel) = [Some ''a'', Some ''b'']"
    by (simp_all add: unique_def example_sel_def)
  have cc: "compare_conditions_within_groups example_rows g [Some ''pre'', Some ''post'']
      = [(''pre vs post'', P (Fl (2 / 100))), (''post vs pre'', P (Fl (2 / 100)))]" for g
    by (simp add: compare_conditions_within_groups_def add_comparison_def pair_key_def lookup_p_def
        row_matches_def example_rows_def)
  have gc: "compare_groups_within_conditions example_rows c [Some ''a'', Some ''b'']
      = [(''a vs b'', P (Fl (3 / 10))), (''b vs a'', P (Fl (3 / 10)))]" for c
    by (simp add: compare_groups_within_conditions_def add_comparison_def pair_key_def lookup_p_def
        row_matches_def example_rows_def)
  have ic: "map (\<lambda>r. (A r, B r, p_unc r, p_corr r))
              (filter (\<lambda>r. Contrast r = ''Condition * Group'') example_rows)
            = [(''a'', ''b'', Fl (1 / 100), Fl (2 / 100))]"
    by (simp add: example_rows_def)
  have m: "calculate_means example_sel
      = \<lparr>index = [''a'', ''b''], columns = [''post'', ''pre''], cells = [[Fl 3, Fl 1], [NaN, Fl 5]]\<rparr>"
    by (simp add: calculate_means_def group_keys_def group_values_def nanmean_def example_sel_def Let_def)
  have lt: "(9::real) / 10000 < 1 / 1000" "\<not> (11::real) / 10000 < 1 / 1000" by simp_all
  note t1 = posthoc_runs_iff_below_threshold[of example_lib example_df "''fc1''" "9 / 10000"]
  note t2 = posthoc_runs_iff_below_threshold[of example_lib example_df "''fc1''" "11 / 10000"]
  have x: "run_posthoc_tests_if_interaction_significant example_lib example_df ''fc1'' (Fl (9 / 10000))
     = (normalize_labels example_df, RunningPosthoc ''fc1'' (Fl (9 / 10000)),
        Inr (Some
          \<lparr>posthoc_results = example_rows,
           condition_comparisons =
             [(Some ''a'', [(''pre vs post'', P (Fl (2 / 100))), (''post vs pre'', P (Fl (2 / 100)))]),
              (Some ''b'', [(''pre vs post'', P (Fl (2 / 100))), (''post vs pre'', P (Fl (2 / 100)))])],
           group_comparisons =
             [(Some ''pre'', [(''a vs b'', P (Fl (3 / 10))), (''b vs a'', P (Fl (3 / 10)))]),
              (Some ''post'', [(''a vs b'', P (Fl (3 / 10))), (''b vs a'', P (Fl (3 / 10)))])],
           interaction_comparisons = [(''a'', ''b'', Fl (1 / 100), Fl (2 / 100))],
           means = \<lparr>index = [''a'', ''b''], columns = [''post'', ''pre''],
                     cells = [[Fl 3, Fl 1], [NaN, Fl 5]]\<rparr>\<rparr>))"
    using t1 lt(1) by (simp add: pd pw u cc gc ic m)
  have y: "run_posthoc_tests_if_interaction_significant example_lib example_df ''fc1'' (Fl (11 / 10000))
     = (example_df, SkippingPosthoc ''fc1'' (Fl (11 / 10000)), Inr None)"
    using t2 lt(2) by simp
  have z: "snd (snd (run_posthoc_tests_if_interaction_significant example_lib example_df ''fc1'' (Fl (1 / 1000)))) = Inr None"
    using t1 by blast
  show ?thesis using x y z by blast
qed

text \<open>
  C5: for a dependent variable whose interaction p-value is at least 0.001, the post-hoc
  function returns the five \<open>None\<close>s and leaves the data frame as it is, and the loop body
  writes the ANOVA sheet of the variable and no other sheet.
\<close>

theorem no_posthoc_at_or_above_threshold:
  assumes "run_mixed_anova lib (df s) dv_col = Inr (aov, sph)"
    and "interaction_p aov = Some (Fl p)"
    and "1 / 1000 \<le> p"
  shows "run_posthoc_tests_if_interaction_significant lib (df s) dv_col (Fl p)
           = (df s, SkippingPosthoc dv_col (Fl p), Inr None)
         \<and> process_dv lib dv_col s
           = (s\<lparr>sheets := sheets s @ [(dv_col @ ''_Mixed_ANOVA'', AnovaSheet aov)],
                 out := out s @ [RunningAnova dv_col, SkippingPosthoc dv_col (Fl p)]\<rparr>, None)"
  using assms
  by (simp add: process_dv_def run_posthoc_tests_if_interaction_significant_def Let_def)

text \<open>The column \<open>fc2\<close> of the example has an interaction p-value of 0.02: only its ANOVA sheet is written.\<close>

theorem no_posthoc_at_or_above_threshold_witness:
  "process_dv example_lib ''fc2'' example_state
     = (example_state\<lparr>sheets := [(''fc2_Mixed_ANOVA'',
            AnovaSheet [\<lparr>Source = ''Group'', aov_p_unc = Fl (1 / 2)\<rparr>,
                        \<lparr>Source = ''Condition'', aov_p_unc = Fl (1 / 4)\<rparr>,
                        \<lparr>Source = ''Interaction'', aov_p_unc = Fl (2 / 100)\<rparr>])],
          out := [RunningAnova ''fc2'', SkippingPosthoc ''fc2'' (Fl (2 / 100))]\<rparr>, None)"
proof -
  have a: "run_mixed_anova example_lib (df example_state) ''fc2''
      = Inr ([\<lparr>Source = ''Group'', aov_p_unc = Fl (1 / 2)\<rparr>,
              \<lparr>Source = ''Condition'', aov_p_unc = Fl (1 / 4)\<rparr>,
              \<lparr>Source = ''Interaction'', aov_p_unc = Fl (2 / 100)\<rparr>],
             \<lparr>spher = True, W = NaN, pval = Fl 1\<rparr>)"
    by (simp add: anova_defs example_defs)
  have b: "interaction_p [\<lparr>Source = ''Group'', aov_p_unc = Fl (1 / 2)\<rparr>,
              \<lparr>Source = ''Condition'', aov_p_unc = Fl (1 / 4)\<rparr>,
              \<lparr>Source = ''Interaction'', aov_p_unc = Fl (2 / 100)\<rparr>] = Some (Fl (2 / 100))"
    by (simp add: interaction_p_def)
  have c: "(1::real) / 1000 \<le> 2 / 100" by simp
  from no_posthoc_at_or_above_threshold[OF a b c]
  show ?thesis by (simp add: example_state_def)
qed

section \<open>Properties of the main loop\<close>

text \<open>
  C6: when the ANOVA table of a dependent variable has no row whose source is
  \<open>Interaction\<close>, the loop body raises nothing: it writes the ANOVA sheet, prints that no
  interaction effect was found, runs no post-hoc test, and the loop goes on with the
  next dependent variable.
\<close>

theorem missing_interaction_skips:
  assumes "run_mixed_anova lib (df s) dv_col = Inr (aov, sph)"
    and "\<forall>r\<in>set aov. Source r \<noteq> ''Interaction''"
  shows "process_dv lib dv_col s
           = (s\<lparr>sheets := sheets s @ [(dv_col @ ''_Mixed_ANOVA'', AnovaSheet aov)],
                 out := out s @ [RunningAnova dv_col, InteractionNotFound dv_col]\<rparr>, None)
         \<and> main_loop lib (dv_col # rest) s
           = main_loop lib rest
               (s\<lparr>sheets := sheets s @ [(dv_col @ ''_Mixed_ANOVA'', AnovaSheet aov)],
                  out := out s @ [RunningAnova dv_col, InteractionNotFound dv_col]\<rparr>)"
proof -
  have "filter (\<lambda>r. Source r = ''Interaction'') aov = []"
    using assms(2) by (simp add: filter_empty_conv)
  then have "interaction_p aov = None" by (simp add: interaction_p_def)
  then have p: "process_dv lib dv_col s
           = (s\<lparr>sheets := sheets s @ [(dv_col @ ''_Mixed_ANOVA'', AnovaSheet aov)],
                 out := out s @ [RunningAnova dv_col, InteractionNotFound dv_col]\<rparr>, None)"
    using assms(1) by (simp add: process_dv_def Let_def)
  show ?thesis using p by simp
qed

text \<open>The ANOVA table of the column \<open>fc3\<close> of the example has no interaction row.\<close>

theorem missing_interaction_skips_witness:
  "process_dv example_lib ''fc3'' example_state
     = (example_state\<lparr>sheets := [(''fc3_Mixed_ANOVA'',
            AnovaSheet [\<lparr>Source = ''Group'', aov_p_unc = Fl (1 / 2)\<rparr>,
                        \<lparr>Source = ''Condition'', aov_p_unc = Fl (1 / 4)\<rparr>])],
          out := [RunningAnova ''fc3'', InteractionNotFound ''fc3'']\<rparr>, None)
   \<and> main_loop example_lib [''fc3''] example_state
     = (example_state\<lparr>sheets := [(''fc3_Mixed_ANOVA'',
            AnovaSheet [\<lparr>Source = ''Group'', aov_p_unc = Fl (1 / 2)\<rparr>,
                        \<lparr>Source = ''Condition'', aov_p_unc = Fl (1 / 4)\<rparr>])],
          out := [RunningAnova ''fc3'', InteractionNotFound ''fc3'']\<rparr>, None)"
proof -
  have a: "run_mixed_anova example_lib (df example_state) ''fc3''
      = Inr ([\<lparr>Source = ''Group'', aov_p_unc = Fl (1 / 2)\<rparr>,
              \<lparr>Source = ''Condition'', aov_p_unc = Fl (1 / 4)\<rparr>],
             \<lparr>spher = True, W = NaN, pval = Fl 1\<rparr>)"
    by (simp add: anova_defs example_defs)
  have b: "\<forall>r\<in>set [\<lparr>Source = ''Group'', aov_p_unc = Fl (1 / 2)\<rparr>,
              \<lparr>Source = ''Condition'', aov_p_unc = Fl (1 / 4)\<rparr>]. Source r \<noteq> ''Interaction''"
    by simp
  from missing_interaction_skips[OF a b, of "[]"]
  show ?thesis by (simp add: example_state_def)
qed

text \<open>
  C7, as the code has it: the loop has no exception handler. When the mixed ANOVA (or
  the sphericity test) raises for a dependent variable, the exception leaves the loop
  after the line announcing the variable; when the pairwise tests behind the gate
  raise, it leaves the loop after the ANOVA sheet of the variable is written and the
  labels are normalized; and whenever the loop body raises, the loop ends with that
  exception in the state the body left. No later dependent variable is processed.
\<close>

theorem failure_aborts_batch:
  "(run_mixed_anova lib (df s) dv_col = Inl e \<longrightarrow>
      main_loop lib (dv_col # rest) s = (s\<lparr>out := out s @ [RunningAnova dv_col]\<rparr>, Some e))
   \<and> (run_mixed_anova lib (df s) dv_col = Inr (aov, sph) \<and> interaction_p aov = Some p
        \<and> float_lt p (Fl (1 / 1000))
        \<and> pg_pairwise_tests lib dv_col (posthoc_data_of (normalize_labels (df s)) dv_col) = Inl e \<longrightarrow>
      main_loop lib (dv_col # rest) s
        = (s\<lparr>df := normalize_labels (df s),
              sheets := sheets s @ [(dv_col @ ''_Mixed_ANOVA'', AnovaSheet aov)],
              out := out s @ [RunningAnova dv_col, RunningPosthoc dv_col p]\<rparr>, Some e))
   \<and> (snd (process_dv lib dv_col s) = Some e \<longrightarrow>
      main_loop lib (dv_col # rest) s = (fst (process_dv lib dv_col s), Some e))"
proof -
  have a: "main_loop lib (dv_col # rest) s = (s\<lparr>out := out s @ [RunningAnova dv_col]\<rparr>, Some e)"
    if "run_mixed_anova lib (df s) dv_col = Inl e"
    using that by (simp add: process_dv_def Let_def)
  have b: "main_loop lib (dv_col # rest) s
        = (s\<lparr>df := normalize_labels (df s),
              sheets := sheets s @ [(dv_col @ ''_Mixed_ANOVA'', AnovaSheet aov)],
              out := out s @ [RunningAnova dv_col, RunningPosthoc dv_col p]\<rparr>, Some e)"
    if "run_mixed_anova lib (df s) dv_col = Inr (aov, sph)" "interaction_p aov = Some p"
      "float_lt p (Fl (1 / 1000))"
      "pg_pairwise_tests lib dv_col (posthoc_data_of (normalize_labels (df s)) dv_col) = Inl e"
    using that
    by (simp add: process_dv_def run_posthoc_tests_if_interaction_significant_def Let_def)
  have c: "main_loop lib (dv_col # rest) s = (fst (process_dv lib dv_col s), Some e)"
    if "snd (process_dv lib dv_col s) = Some e"
    using that by (cases "process_dv lib dv_col s") simp
  show ?thesis using a b c by blast
qed

text \<open>
  The library raises for the column \<open>fc4\<close> of the example, and the loop stops there; with
  pairwise tests that raise, the loop stops at \<open>fc1\<close>, after its ANOVA sheet and with the
  labels normalized.
\<close>

theorem failure_aborts_batch_witness:
  "main_loop example_lib [''fc4'', ''fc2''] example_state
     = (example_state\<lparr>out := [RunningAnova ''fc4'']\<rparr>, Some (StatsError ''insufficient data''))
   \<and> main_loop example_lib_failing_posthoc [''fc1'', ''fc2''] example_state
     = (example_state\<lparr>df := normalize_labels example_df,
          sheets := [(''fc1_Mixed_ANOVA'',
            AnovaSheet [\<lparr>Source = ''Group'', aov_p_unc = Fl (1 / 2)\<rparr>,
                        \<lparr>Source = ''Condition'', aov_p_unc = Fl (1 / 4)\<rparr>,
                        \<lparr>Source = ''Interaction'', aov_p_unc = Fl (5 / 10000)\<rparr>])],
          out := [RunningAnova ''fc1'', RunningPosthoc ''fc1'' (Fl (5 / 10000))]\<rparr>,
        Some (StatsError ''too few subjects''))"
proof -
  have a: "run_mixed_anova example_lib (df example_state) ''fc4'' = Inl (StatsError ''insufficient data'')"
    by (simp add: anova_defs example_defs)
  have b: "run_mixed_anova example_lib_failing_posthoc (df example_state) ''fc1''
      = Inr ([\<lparr>Source = ''Group'', aov_p_unc = Fl (1 / 2)\<rparr>,
              \<lparr>Source = ''Condition'', aov_p_unc = Fl (1 / 4)\<rparr>,
              \<lparr>Source = ''Interaction'', aov_p_unc = Fl (5 / 10000)\<rparr>],
             \<lparr>spher = True, W = NaN, pval = Fl 1\<rparr>)"
    by (simp add: anova_defs example_defs example_lib_failing_posthoc_def)
  have c: "interaction_p [\<lparr>Source = ''Group'', aov_p_unc = Fl (1 / 2)\<rparr>,
              \<lparr>Source = ''Condition'', aov_p_unc = Fl (1 / 4)\<rparr>,
              \<lparr>Source = ''Interaction'', aov_p_unc = Fl (5 / 10000)\<rparr>] = Some (Fl (5 / 10000))"
    by (simp add: interaction_p_def)
  have d: "float_lt (Fl (5 / 10000)) (Fl (1 / 1000))" by simp
  have e: "pg_pairwise_tests example_lib_failing_posthoc ''fc1''
             (posthoc_data_of (normalize_labels (df example_state)) ''fc1'')
           = Inl (StatsError ''too few subjects'')"
    by (simp add: example_lib_failing_posthoc_def failing_pairwise_def)
  from failure_aborts_batch[of example_lib example_state "''fc4''" "StatsError ''insufficient data''" "[''fc2'']"] a
  have x: "main_loop example_lib [''fc4'', ''fc2''] example_state
     = (example_state\<lparr>out := out example_state @ [RunningAnova ''fc4'']\<rparr>, Some (StatsError ''insufficient data''))"
    by blast
  from failure_aborts_batch[of example_lib_failing_posthoc example_state "''fc1''"
      "StatsError ''too few subjects''" "[''fc2'']" _ _ "Fl (5 / 10000)"] b c d e
  have y: "main_loop example_lib_failing_posthoc [''fc1'', ''fc2''] example_state
     = (example_state\<lparr>df := normalize_labels (df example_state),
          sheets := sheets example_state @ [(''fc1'' @ ''_Mixed_ANOVA'',
            AnovaSheet [\<lparr>Source = ''Group'', aov_p_unc = Fl (1 / 2)\<rparr>,
                        \<lparr>Source = ''Condition'', aov_p_unc = Fl (1 / 4)\<rparr>,
                        \<lparr>Source = ''Interaction'', aov_p_unc = Fl (5 / 10000)\<rparr>])],
          out := out example_state @ [RunningAnova ''fc1'', RunningPosthoc ''fc1'' (Fl (5 / 10000))]\<rparr>,
        Some (StatsError ''too few subjects''))"
    by blast
  show ?thesis using x y by (simp add: example_state_def)
qed

text \<open>
  C7 as stated fails: the library raises for \<open>fc4\<close> (all rows are dropped), and the run
  over \<open>fc4\<close>, \<open>fc2\<close> ends with that exception and no sheet, although \<open>fc2\<close> alone yields
  its ANOVA sheet.
\<close>

theorem failure_aborts_batch_counterexample:
  "run_mixed_anova example_lib (df example_state) ''fc4'' = Inl (StatsError ''insufficient data'')
   \<and> main_loop example_lib [''fc4'', ''fc2''] example_state
       = (example_state\<lparr>out := [RunningAnova ''fc4'']\<rparr>, Some (StatsError ''insufficient data''))
   \<and> map fst (sheets (fst (main_loop example_lib [''fc2''] example_state))) = [''fc2_Mixed_ANOVA'']"
  by (simp add: process_dv_def run_mixed_anova_def aov_data_of_def select_columns_def dropna_def
      example_lib_def example_anova_def example_sphericity_def example_state_def example_df_def dv_cells_def
      check_sphericity_def interaction_p_def run_posthoc_tests_if_interaction_significant_def Let_def)

section \<open>Listwise deletion before the mixed ANOVA\<close>

text \<open>
  What line 24 keeps: the rows given to the mixed ANOVA and to the sphericity test are,
  in order, exactly the observations with no missing cell among subject, group,
  condition and the dependent variable. Where no subject, group or condition cell is
  missing, these are exactly the observations whose dependent-variable value is present.
\<close>

lemma anova_listwise_deletion:
  "aov_data_of data dv_col
     = select_columns dv_col
         (filter (\<lambda>r. ID r \<noteq> None \<and> Group r \<noteq> None \<and> Condition r \<noteq> None \<and> \<not> isna (DV r dv_col)) data)
   \<and> run_mixed_anova lib data dv_col
     = (case pg_mixed_anova lib dv_col (aov_data_of data dv_col) of
          Inl e \<Rightarrow> Inl e
        | Inr aov \<Rightarrow>
            (case pg_sphericity lib dv_col (aov_data_of data dv_col) of
               Inl e \<Rightarrow> Inl e
             | Inr sp \<Rightarrow> Inr (aov, sp)))
   \<and> ((\<forall>r\<in>set data. ID r \<noteq> None \<and> Group r \<noteq> None \<and> Condition r \<noteq> None) \<longrightarrow>
        aov_data_of data dv_col = select_columns dv_col (filter (\<lambda>r. \<not> isna (DV r dv_col)) data))"
proof -
  have a: "aov_data_of data dv_col
     = select_columns dv_col
         (filter (\<lambda>r. ID r \<noteq> None \<and> Group r \<noteq> None \<and> Condition r \<noteq> None \<and> \<not> isna (DV r dv_col)) data)"
    by (simp only: aov_data_of_def select_dropna)
  have b: "run_mixed_anova lib data dv_col
     = (case pg_mixed_anova lib dv_col (aov_data_of data dv_col) of
          Inl e \<Rightarrow> Inl e
        | Inr aov \<Rightarrow>
            (case pg_sphericity lib dv_col (aov_data_of data dv_col) of
               Inl e \<Rightarrow> Inl e
             | Inr sp \<Rightarrow> Inr (aov, sp)))"
    by (simp only: run_mixed_anova_def check_sphericity_def Let_def)
  have c: "aov_data_of data dv_col = select_columns dv_col (filter (\<lambda>r. \<not> isna (DV r dv_col)) data)"
    if "\<forall>r\<in>set data. ID r \<noteq> None \<and> Group r \<noteq> None \<and> Condition r \<noteq> None"
  proof -
    have "filter (\<lambda>r. ID r \<noteq> None \<and> Group r \<noteq> None \<and> Condition r \<noteq> None \<and> \<not> isna (DV r dv_col)) data
       = filter (\<lambda>r. \<not> isna (DV r dv_col)) data"
      using that by (intro filter_cong) auto
    then show ?thesis by (simp only: a)
  qed
  show ?thesis using a b c by blast
qed

text \<open>In the example no subject, group or condition cell is missing, and the one row without a value for \<open>fc1\<close> is dropped.\<close>

lemma anova_listwise_deletion_example:
  "map s_dv (aov_data_of example_df ''fc1'') = [Fl 1, Fl 3, Fl 5]"
proof -
  have a: "\<forall>r\<in>set example_df. ID r \<noteq> None \<and> Group r \<noteq> None \<and> Condition r \<noteq> None"
    by (simp add: example_df_def)
  from anova_listwise_deletion[of example_df "''fc1''" example_lib] a
  have "aov_data_of example_df ''fc1'' = select_columns ''fc1'' (filter (\<lambda>r. \<not> isna (DV r ''fc1'')) example_df)"
    by blast
  then show ?thesis by (simp add: select_columns_def example_df_def dv_cells_def)
qed

text \<open>
  C8: before the mixed model is fitted, exactly the observations whose value for the
  dependent variable is missing are to be dropped, and those with the value present
  kept. The code drops more. At an observation with its value present and its group
  label missing, \<open>dropna()\<close> of line 24 leaves the mixed ANOVA no row, while
  \<open>dropna(subset=[dv_col])\<close> of line 86, the deletion of the post-hoc path, keeps the row.
\<close>

theorem anova_drops_row_missing_label:
  "\<not> isna (DV \<lparr>ID = Some 1, Group = None, Condition = Some ''pre'', DV = dv_cells [(''fc1'', Fl 1)]\<rparr> ''fc1'')
   \<and> aov_data_of [\<lparr>ID = Some 1, Group = None, Condition = Some ''pre'', DV = dv_cells [(''fc1'', Fl 1)]\<rparr>] ''fc1'' = []
   \<and> map s_dv (posthoc_data_of
        [\<lparr>ID = Some 1, Group = None, Condition = Some ''pre'', DV = dv_cells [(''fc1'', Fl 1)]\<rparr>] ''fc1'')
       = [Fl 1]"
  by (simp add: aov_data_of_def posthoc_data_of_def dropna_def dropna_subset_dv_def select_columns_def
      dv_cells_def)

section \<open>The means table\<close>

text \<open>
  C9, as the code has it: the means table is rectangular. It has a cell for \<open>(g, c)\<close>
  exactly when \<open>g\<close> is the group of some row with both labels present and \<open>c\<close> is the
  condition of some such row; the cell holds the mean of the non-missing values of the
  pair, and it is \<open>NaN\<close> exactly when the pair has no non-missing value.
\<close>

theorem means_table_cells:
  "means_at (calculate_means data) g c
     = (if (\<exists>r\<in>set data. s_group r = Some g \<and> s_condition r \<noteq> None)
           \<and> (\<exists>r\<in>set data. s_condition r = Some c \<and> s_group r \<noteq> None)
        then Some (nanmean (group_values data g c)) else None)
   \<and> (isna (nanmean (group_values data g c))
        \<longleftrightarrow> \<not> (\<exists>r\<in>set data. s_group r = Some g \<and> s_condition r = Some c \<and> \<not> isna (s_dv r)))"
proof -
  let ?keys = "group_keys data"
  have cell: "(if (g, c) \<in> set ?keys then nanmean (group_values data g c) else NaN)
                = nanmean (group_values data g c)" for g c
    using group_values_no_key[of g c data] by (simp add: nanmean_def)
  have g: "g \<in> fst ` set ?keys \<longleftrightarrow> (\<exists>r\<in>set data. s_group r = Some g \<and> s_condition r \<noteq> None)"
    by (force simp: set_group_keys)
  have c: "c \<in> snd ` set ?keys \<longleftrightarrow> (\<exists>r\<in>set data. s_condition r = Some c \<and> s_group r \<noteq> None)"
    by (force simp: set_group_keys)
  have "means_at (calculate_means data) g c
      = (if g \<in> fst ` set ?keys \<and> c \<in> snd ` set ?keys
         then Some (nanmean (group_values data g c)) else None)"
    by (simp add: means_at_def calculate_means_def Let_def cell map_of_zip_map)
  moreover have "isna (nanmean (group_values data g c))
        \<longleftrightarrow> \<not> (\<exists>r\<in>set data. s_group r = Some g \<and> s_condition r = Some c \<and> \<not> isna (s_dv r))"
    by (auto simp: nanmean_isna group_values_def)
  ultimately show ?thesis using g c by simp
qed

text \<open>A cell with a mean and a cell the table does not have.\<close>

theorem means_table_cells_witness:
  "means_at (calculate_means example_sel) ''a'' ''post'' = Some (Fl 3)
   \<and> means_at (calculate_means example_sel) ''a'' ''mid'' = None"
  using means_table_cells[of example_sel "''a''" "''post''"] means_table_cells[of example_sel "''a''" "''mid''"]
  by (simp add: example_sel_def group_values_def nanmean_def)

text \<open>
  C9 as stated fails: no row has group \<open>b\<close> and condition \<open>post\<close>, yet the table has the
  cell, holding \<open>NaN\<close>.
\<close>

theorem means_table_counterexample:
  "means_at (calculate_means example_sel) ''b'' ''post'' = Some NaN
   \<and> group_values example_sel ''b'' ''post'' = []"
  by (simp add: means_at_def calculate_means_def group_keys_def example_sel_def group_values_def nanmean_def Let_def)

section \<open>Label normalization\<close>

text \<open>
  C3, as the code has it: the post-hoc function writes to the caller's data frame. When
  the gate is passed it replaces the group and condition columns by their stripped,
  lower-cased values (also when the pairwise tests then raise), and otherwise leaves the
  frame as it is; the subject and dependent-variable columns are never changed; and a
  frame that one gated run has normalized is left unchanged by every later run.
\<close>

theorem posthoc_normalizes_in_place:
  "fst (run_posthoc_tests_if_interaction_significant lib data dv_col p)
     = (if float_lt p (Fl (1 / 1000)) then normalize_labels data else data)
   \<and> map ID (fst (run_posthoc_tests_if_interaction_significant lib data dv_col p)) = map ID data
   \<and> map DV (fst (run_posthoc_tests_if_interaction_significant lib data dv_col p)) = map DV data
   \<and> (float_lt p (Fl (1 / 1000)) \<longrightarrow>
        fst (run_posthoc_tests_if_interaction_significant lib' 
               (fst (run_posthoc_tests_if_interaction_significant lib data dv_col p)) dv_col' p')
          = fst (run_posthoc_tests_if_interaction_significant lib data dv_col p))"
proof -
  have f: "fst (run_posthoc_tests_if_interaction_significant l d v q)
     = (if float_lt q (Fl (1 / 1000)) then normalize_labels d else d)" for l d v q
    by (simp add: run_posthoc_tests_if_interaction_significant_def Let_def)
  have i: "map ID (normalize_labels data) = map ID data"
    by (simp add: normalize_labels_def Let_def comp_def)
  have d: "map DV (normalize_labels data) = map DV data"
    by (simp add: normalize_labels_def Let_def comp_def)
  show ?thesis by (simp add: f i d normalize_labels_idem)
qed

text \<open>The group labels of the example after the post-hoc run for \<open>fc1\<close>, and a second run on the result.\<close>

theorem posthoc_normalizes_in_place_witness:
  "map Group (fst (run_posthoc_tests_if_interaction_significant example_lib example_df ''fc1'' (Fl (5 / 10000))))
     = [Some ''a'', Some ''a'', Some ''b'', Some ''b'']
   \<and> fst (run_posthoc_tests_if_interaction_significant example_lib
            (fst (run_posthoc_tests_if_interaction_significant example_lib example_df ''fc1'' (Fl (5 / 10000))))
            ''fc2'' (Fl (1 / 10000)))
     = fst (run_posthoc_tests_if_interaction_significant example_lib example_df ''fc1'' (Fl (5 / 10000)))"
proof -
  have g: "float_lt (Fl (5 / 10000)) (Fl (1 / 1000))" by simp
  note t = posthoc_normalizes_in_place[of example_lib example_df "''fc1''" "Fl (5 / 10000)" example_lib "''fc2''" "Fl (1 / 10000)"]
  have a: "fst (run_posthoc_tests_if_interaction_significant example_lib example_df ''fc1'' (Fl (5 / 10000)))
             = normalize_labels example_df"
    using t g by (simp only: if_True)
  have b: "fst (run_posthoc_tests_if_interaction_significant example_lib
            (fst (run_posthoc_tests_if_interaction_significant example_lib example_df ''fc1'' (Fl (5 / 10000))))
            ''fc2'' (Fl (1 / 10000)))
     = fst (run_posthoc_tests_if_interaction_significant example_lib example_df ''fc1'' (Fl (5 / 10000)))"
    using t g by blast
  have "map Group (normalize_labels example_df) = [Some ''a'', Some ''a'', Some ''b'', Some ''b'']"
    by (simp add: normalize_labels_def example_df_def str_strip_lower_def strip_def lower_def
        isspace_def lower_char_def char_of_eq_conv)
  then show ?thesis using a b by simp
qed

text \<open>
  C3 as stated fails: after the post-hoc run for \<open>fc1\<close> the caller's data frame is not
  the one passed in.
\<close>

theorem posthoc_normalizes_in_place_counterexample:
  "fst (run_posthoc_tests_if_interaction_significant example_lib example_df ''fc1'' (Fl (5 / 10000)))
     \<noteq> example_df"
  by (simp add: run_posthoc_tests_if_interaction_significant_def Let_def normalize_labels_def
      example_df_def str_strip_lower_def strip_def lower_def isspace_def lower_char_def)

section \<open>The fixed level of a comparison matrix\<close>

text \<open>
  C10: neither matrix builder reads its fixed-level argument, so any two groups give the
  same condition-pair matrix and any two conditions the same group-pair matrix; in the
  result of one post-hoc run, every per-group matrix is one and the same matrix, and so
  is every per-condition matrix.
\<close>

theorem fixed_level_ignored:
  "compare_conditions_within_groups rows g1 levels = compare_conditions_within_groups rows g2 levels
   \<and> compare_groups_within_conditions rows c1 levels = compare_groups_within_conditions rows c2 levels
   \<and> (\<forall>gm\<in>set (condition_comparisons (build_bundle posthoc_data rows)).
        snd gm = compare_conditions_within_groups rows g1 (unique (map s_condition posthoc_data)))
   \<and> (\<forall>cm\<in>set (group_comparisons (build_bundle posthoc_data rows)).
        snd cm = compare_groups_within_conditions rows c1 (unique (map s_group posthoc_data)))"
proof -
  have a: "compare_conditions_within_groups rows g levels = compare_conditions_within_groups rows g1 levels" for g levels
    by (simp add: compare_conditions_within_groups_def)
  have b: "compare_groups_within_conditions rows c levels = compare_groups_within_conditions rows c1 levels" for c levels
    by (simp add: compare_groups_within_conditions_def)
  have c: "\<forall>gm\<in>set (condition_comparisons (build_bundle posthoc_data rows)).
        snd gm = compare_conditions_within_groups rows g1 (unique (map s_condition posthoc_data))"
    using fold_update_const[of "[]" "fold (add_comparison ''Condition'' rows)
        (List.product (unique (map s_condition posthoc_data)) (unique (map s_condition posthoc_data))) []"]
    by (simp add: build_bundle_def Let_def compare_conditions_within_groups_def split: prod.split)
  have d: "\<forall>cm\<in>set (group_comparisons (build_bundle posthoc_data rows)).
        snd cm = compare_groups_within_conditions rows c1 (unique (map s_group posthoc_data))"
    using fold_update_const[of "[]" "fold (add_comparison ''Group'' rows)
        (List.product (unique (map s_group posthoc_data)) (unique (map s_group posthoc_data))) []"]
    by (simp add: build_bundle_def Let_def compare_groups_within_conditions_def split: prod.split)
  show ?thesis using a[of g2 levels] b[of c2 levels] c d by simp
qed

text \<open>The per-group and per-condition matrices of the example.\<close>

theorem fixed_level_ignored_witness:
  "compare_conditions_within_groups example_rows (Some ''a'') [Some ''pre'', Some ''post'']
     = compare_conditions_within_groups example_rows (Some ''b'') [Some ''pre'', Some ''post'']
   \<and> map snd (condition_comparisons (build_bundle example_sel example_rows))
     = [compare_conditions_within_groups example_rows (Some ''a'') [Some ''pre'', Some ''post''],
        compare_conditions_within_groups example_rows (Some ''a'') [Some ''pre'', Some ''post'']]
   \<and> map snd (group_comparisons (build_bundle example_sel example_rows))
     = [compare_groups_within_conditions example_rows (Some ''pre'') [Some ''a'', Some ''b''],
        compare_groups_within_conditions example_rows (Some ''pre'') [Some ''a'', Some ''b'']]"
proof -
  have u: "unique (map s_condition example_sel) = [Some ''pre'', Some ''post'']"
    "unique (map s_group example_sel) = [Some ''a'', Some ''b'']"
    by (simp_all add: unique_def example_sel_def)
  have k: "map fst (condition_comparisons (build_bundle example_sel example_rows)) = [Some ''a'', Some ''b'']"
    "map fst (group_comparisons (build_bundle example_sel example_rows)) = [Some ''pre'', Some ''post'']"
    by (simp_all add: build_bundle_def Let_def u compare_interaction_def)
  from fixed_level_ignored[of example_rows "Some ''a''" "[Some ''pre'', Some ''post'']" "Some ''b''"
      "Some ''pre''" "Some ''post''" example_sel]
  have a: "compare_conditions_within_groups example_rows (Some ''a'') [Some ''pre'', Some ''post'']
     = compare_conditions_within_groups example_rows (Some ''b'') [Some ''pre'', Some ''post'']"
    and c: "\<forall>gm\<in>set (condition_comparisons (build_bundle example_sel example_rows)).
        snd gm = compare_conditions_within_groups example_rows (Some ''a'') [Some ''pre'', Some ''post'']"
    and d: "\<forall>cm\<in>set (group_comparisons (build_bundle example_sel example_rows)).
        snd cm = compare_groups_within_conditions example_rows (Some ''pre'') [Some ''a'', Some ''b'']"
    by (simp_all add: u)
  have l: "length xs = 2 \<Longrightarrow> \<forall>x\<in>set xs. snd x = m \<Longrightarrow> map snd xs = [m, m]" for xs :: "('a \<times> 'b) list" and m
    by (cases xs; cases "tl xs") auto
  have "length (condition_comparisons (build_bundle example_sel example_rows)) = 2"
    "length (group_comparisons (build_bundle example_sel example_rows)) = 2"
    using k by (metis length_map list.size(3,4) One_nat_def Suc_1 add.left_neutral plus_1_eq_Suc)+
  then show ?thesis using a l[OF _ c] l[OF _ d] by simp
qed

section \<open>Lookups in the comparison matrices\<close>

text \<open>
  C2, as the code has it: let the first row of the pairwise table that has contrast
  \<open>Condition\<close> and levels \<open>x\<close> and \<open>y\<close> in either order be a row with \<open>A = x\<close>, \<open>B = y\<close>;
  let \<open>x\<close> and \<open>y\<close> be distinct condition levels, and let no other ordered pair of
  levels print as the key \<open>x vs y\<close> or as the key \<open>y vs x\<close> (as is the case when no
  level is missing or holds a space). Then the condition-pair matrix maps both keys to
  the uncorrected p-value of that row.
\<close>

theorem symmetric_lookup:
  assumes rows: "rows = pre @ r # post"
    and first: "\<forall>q\<in>set pre. \<not> row_matches ''Condition'' (Some x) (Some y) q"
    and r: "Contrast r = ''Condition''" "A r = x" "B r = y"
    and levels: "Some x \<in> set conditions" "Some y \<in> set conditions" "x \<noteq> y"
    and key_xy: "\<forall>c1\<in>set conditions. \<forall>c2\<in>set conditions.
                   py_ne c1 c2 \<and> pair_key c1 c2 = pair_key (Some x) (Some y) \<longrightarrow> c1 = Some x \<and> c2 = Some y"
    and key_yx: "\<forall>c1\<in>set conditions. \<forall>c2\<in>set conditions.
                   py_ne c1 c2 \<and> pair_key c1 c2 = pair_key (Some y) (Some x) \<longrightarrow> c1 = Some y \<and> c2 = Some x"
  shows "map_of (compare_conditions_within_groups rows grp conditions) (x @ '' vs '' @ y)
           = Some (P (p_unc r))
         \<and> map_of (compare_conditions_within_groups rows grp conditions) (y @ '' vs '' @ x)
           = Some (P (p_unc r))"
proof -
  have m: "row_matches ''Condition'' (Some x) (Some y) r"
    using r by (simp add: row_matches_def)
  have l: "lookup_p ''Condition'' rows (Some x) (Some y) = P (p_unc r)"
    using lookup_p_first[OF rows first m] .
  have ne: "py_ne (Some x) (Some y)" "py_ne (Some y) (Some x)" using levels(3) by auto
  obtain c1 c2 where a: "c1 \<in> set conditions" "c2 \<in> set conditions" "py_ne c1 c2"
      "pair_key c1 c2 = pair_key (Some x) (Some y)"
      "map_of (fold (add_comparison ''Condition'' rows) (List.product conditions conditions) [])
         (pair_key (Some x) (Some y)) = Some (lookup_p ''Condition'' rows c1 c2)"
    using matrix_entry[OF levels(1,2) ne(1)] by blast
  then have "c1 = Some x \<and> c2 = Some y" using key_xy by blast
  then have xy: "map_of (compare_conditions_within_groups rows grp conditions) (pair_key (Some x) (Some y))
           = Some (P (p_unc r))"
    using a(5) l by (simp add: compare_conditions_within_groups_def)
  obtain d1 d2 where b: "d1 \<in> set conditions" "d2 \<in> set conditions" "py_ne d1 d2"
      "pair_key d1 d2 = pair_key (Some y) (Some x)"
      "map_of (fold (add_comparison ''Condition'' rows) (List.product conditions conditions) [])
         (pair_key (Some y) (Some x)) = Some (lookup_p ''Condition'' rows d1 d2)"
    using matrix_entry[OF levels(2,1) ne(2)] by blast
  then have "d1 = Some y \<and> d2 = Some x" using key_yx by blast
  then have yx: "map_of (compare_conditions_within_groups rows grp conditions) (pair_key (Some y) (Some x))
           = Some (P (p_unc r))"
    using b(5) l lookup_p_sym[of "''Condition''" rows "Some y" "Some x"]
    by (simp add: compare_conditions_within_groups_def)
  show ?thesis using xy yx by (simp add: pair_key_def)
qed

text \<open>The row for \<open>post\<close> and \<open>pre\<close> of the example table, read under both keys.\<close>

theorem symmetric_lookup_witness:
  "map_of (compare_conditions_within_groups example_rows (Some ''a'') [Some ''pre'', Some ''post'']) ''post vs pre''
     = Some (P (Fl (2 / 100)))
   \<and> map_of (compare_conditions_within_groups example_rows (Some ''a'') [Some ''pre'', Some ''post'']) ''pre vs post''
     = Some (P (Fl (2 / 100)))"
proof -
  have rows: "example_rows = [] @ hd example_rows # tl example_rows"
    by (simp add: example_rows_def)
  have first: "\<forall>q\<in>set []. \<not> row_matches ''Condition'' (Some ''post'') (Some ''pre'') q" by simp
  have r: "Contrast (hd example_rows) = ''Condition''" "A (hd example_rows) = ''post''"
    "B (hd example_rows) = ''pre''"
    by (simp_all add: example_rows_def)
  have levels: "Some ''post'' \<in> set [Some ''pre'', Some ''post'']"
    "Some ''pre'' \<in> set [Some ''pre'', Some ''post'']" "''post'' \<noteq> ''pre''"
    by simp_all
  have k1: "\<forall>c1\<in>set [Some ''pre'', Some ''post'']. \<forall>c2\<in>set [Some ''pre'', Some ''post''].
      py_ne c1 c2 \<and> pair_key c1 c2 = pair_key (Some ''post'') (Some ''pre'')
        \<longrightarrow> c1 = Some ''post'' \<and> c2 = Some ''pre''"
    by (simp add: pair_key_def)
  have k2: "\<forall>c1\<in>set [Some ''pre'', Some ''post'']. \<forall>c2\<in>set [Some ''pre'', Some ''post''].
      py_ne c1 c2 \<and> pair_key c1 c2 = pair_key (Some ''pre'') (Some ''post'')
        \<longrightarrow> c1 = Some ''pre'' \<and> c2 = Some ''post''"
    by (simp add: pair_key_def)
  from symmetric_lookup[OF rows first r levels k1 k2, of "Some ''a''"]
  show ?thesis by (simp add: example_rows_def)
qed

text \<open>
  C2 as stated fails: the table holds a \<open>Condition\<close> row with \<open>A = x\<close>, \<open>B = y\<close> and
  p-value 0.02, and both keys map to 0.5, the p-value of an earlier row for the pair.
\<close>

theorem symmetric_lookup_counterexample:
  "duplicate_rows ! 1 = \<lparr>Contrast = ''Condition'', A = ''x'', B = ''y'', p_unc = Fl (2 / 100), p_corr = Fl (4 / 100)\<rparr>
   \<and> map_of (compare_conditions_within_groups duplicate_rows None [Some ''x'', Some ''y'']) ''x vs y''
        = Some (P (Fl (1 / 2)))
   \<and> map_of (compare_conditions_within_groups duplicate_rows None [Some ''x'', Some ''y'']) ''y vs x''
        = Some (P (Fl (1 / 2)))"
  by (simp add: duplicate_rows_def compare_conditions_within_groups_def add_comparison_def
      pair_key_def lookup_p_def row_matches_def)

text \<open>
  C4, as the code has it: for an ordered pair of levels that passes the \<open>!=\<close> test, if
  no pair of levels printing as the same key has a row of the contrast in either
  order, the matrix maps the key of the pair to \<open>ns\<close>; this holds for the
  condition-pair matrix with contrast \<open>Condition\<close> and for the group-pair matrix with
  contrast \<open>Group\<close>. The builders have no failing branch: a lookup without a row is a
  value, never an exception.
\<close>

theorem missing_pair_is_ns:
  assumes "x \<in> set levels" and "y \<in> set levels" and "py_ne x y"
  shows "((\<forall>c1\<in>set levels. \<forall>c2\<in>set levels.
             py_ne c1 c2 \<and> pair_key c1 c2 = pair_key x y \<longrightarrow>
               (\<forall>q\<in>set rows. \<not> row_matches ''Condition'' c1 c2 q)) \<longrightarrow>
          map_of (compare_conditions_within_groups rows grp levels) (pair_key x y) = Some NS)
         \<and> ((\<forall>c1\<in>set levels. \<forall>c2\<in>set levels.
             py_ne c1 c2 \<and> pair_key c1 c2 = pair_key x y \<longrightarrow>
               (\<forall>q\<in>set rows. \<not> row_matches ''Group'' c1 c2 q)) \<longrightarrow>
          map_of (compare_groups_within_conditions rows cnd levels) (pair_key x y) = Some NS)"
proof -
  have ns: "map_of (fold (add_comparison kind rows) (List.product levels levels) []) (pair_key x y) = Some NS"
    if h: "\<forall>c1\<in>set levels. \<forall>c2\<in>set levels.
             py_ne c1 c2 \<and> pair_key c1 c2 = pair_key x y \<longrightarrow>
               (\<forall>q\<in>set rows. \<not> row_matches kind c1 c2 q)" for kind
  proof -
    obtain c1 c2 where a: "c1 \<in> set levels" "c2 \<in> set levels" "py_ne c1 c2"
        "pair_key c1 c2 = pair_key x y"
        "map_of (fold (add_comparison kind rows) (List.product levels levels) []) (pair_key x y)
           = Some (lookup_p kind rows c1 c2)"
      using matrix_entry[OF assms(1,2,3)] by blast
    then have "lookup_p kind rows c1 c2 = NS"
      using h lookup_p_none by blast
    then show ?thesis using a(5) by simp
  qed
  show ?thesis
    using ns[of "''Condition''"] ns[of "''Group''"]
    by (simp only: compare_conditions_within_groups_def compare_groups_within_conditions_def) blast
qed

text \<open>The example table has no row for the level \<open>mid\<close>.\<close>

theorem missing_pair_is_ns_witness:
  "map_of (compare_conditions_within_groups example_rows (Some ''a'') [Some ''pre'', Some ''post'', Some ''mid''])
      ''pre vs mid'' = Some NS
   \<and> map_of (compare_groups_within_conditions example_rows (Some ''pre'') [Some ''pre'', Some ''post'', Some ''mid''])
      ''pre vs mid'' = Some NS"
proof -
  have l: "Some ''pre'' \<in> set [Some ''pre'', Some ''post'', Some ''mid'']"
    "Some ''mid'' \<in> set [Some ''pre'', Some ''post'', Some ''mid'']"
    "py_ne (Some ''pre'') (Some ''mid'')"
    by simp_all
  have h: "\<forall>c1\<in>set [Some ''pre'', Some ''post'', Some ''mid'']. \<forall>c2\<in>set [Some ''pre'', Some ''post'', Some ''mid''].
      py_ne c1 c2 \<and> pair_key c1 c2 = pair_key (Some ''pre'') (Some ''mid'')
        \<longrightarrow> (\<forall>q\<in>set example_rows. \<not> row_matches kind c1 c2 q)" for kind
    by (simp add: pair_key_def example_rows_def row_matches_def)
  from missing_pair_is_ns[OF l, of example_rows "Some ''a''" "Some ''pre''"] h[of "''Condition''"] h[of "''Group''"]
  show ?thesis by (simp add: pair_key_def)
qed

text \<open>
  C4 as stated fails: no row has the levels \<open>a\<close> and \<open>vs y\<close>, but the pair prints as
  the key of the later pair \<open>a vs\<close>, \<open>y\<close>, which has a row, and the matrix maps the
  key to its p-value.
\<close>

theorem missing_pair_is_ns_counterexample:
  "filter (row_matches ''Condition'' (Some ''a'') (Some ''vs y'')) colliding_rows = []
   \<and> pair_key (Some ''a'') (Some ''vs y'') = ''a vs vs y''
   \<and> map_of (compare_conditions_within_groups colliding_rows None colliding_levels) ''a vs vs y''
        = Some (P (Fl (2 / 100)))"
  by (simp add: colliding_rows_def colliding_levels_def compare_conditions_within_groups_def add_comparison_def
      pair_key_def lookup_p_def row_matches_def)

end
